theory Spec2Isabelle
  imports Main "HOL-Library.Sublist"
begin

section \<open>Python strings\<close>

text \<open>
  A Python \<open>str\<close> is a sequence of Unicode code points, and \<open>bytes\<close> a sequence of
  numbers below 256. Both are lists of natural numbers here; \<open>str\<close> turns an ASCII literal
  into its code points, so that the literals of \<open>aab_to_apk.py\<close> can be written as text.
\<close>

type_synonym pystr = "nat list"

definition str :: "string \<Rightarrow> pystr" where
  "str s = map of_char s"

text \<open>
  \<open>str.isspace\<close> of one character: the white space that \<open>str.strip()\<close> removes
  (U+0009..U+000D, U+001C..U+0020, U+0085, U+00A0, U+1680, U+2000..U+200A, U+2028, U+2029,
  U+202F, U+205F, U+3000).
\<close>

definition isspace :: "nat \<Rightarrow> bool" where
  "isspace c \<longleftrightarrow>
     (9 \<le> c \<and> c \<le> 13) \<or> (28 \<le> c \<and> c \<le> 32) \<or> c = 133 \<or> c = 160 \<or> c = 5760 \<or>
     (8192 \<le> c \<and> c \<le> 8202) \<or> c = 8232 \<or> c = 8233 \<or> c = 8239 \<or> c = 8287 \<or> c = 12288"

definition strip :: "pystr \<Rightarrow> pystr" where
  "strip s = rev (dropWhile isspace (rev (dropWhile isspace s)))"

definition startswith :: "pystr \<Rightarrow> pystr \<Rightarrow> bool" where
  "startswith s p \<longleftrightarrow> take (length p) s = p"

text \<open>
  \<open>line.split(sep, 1)\<close> for a one-character separator that occurs in the line: the text
  before the first separator and the text after it.
\<close>

definition split_first :: "nat \<Rightarrow> pystr \<Rightarrow> pystr \<times> pystr" where
  "split_first sep s = (takeWhile (\<lambda>c. c \<noteq> sep) s, tl (dropWhile (\<lambda>c. c \<noteq> sep) s))"

text \<open>
  \<open>s.replace(old, new)\<close> for a non-empty \<open>old\<close>: the occurrences are found from the left
  and do not overlap.
\<close>

function replace :: "pystr \<Rightarrow> pystr \<Rightarrow> pystr \<Rightarrow> pystr" where
  "replace old new [] = []"
| "replace old new (c # cs) =
     (if old \<noteq> [] \<and> take (length old) (c # cs) = old
      then new @ replace old new (drop (length old) (c # cs))
      else c # replace old new cs)"
  by pat_completeness auto
termination
  by (relation "measure (\<lambda>(old, new, s). length s)") (auto simp: neq_Nil_conv)

text \<open>\<open>sep.join(parts)\<close>.\<close>

fun join :: "pystr \<Rightarrow> pystr list \<Rightarrow> pystr" where
  "join sep [] = []"
| "join sep [p] = p"
| "join sep (p # q # ps) = p @ sep @ join sep (q # ps)"

subsection \<open>The codecs of the keystore path\<close>

text \<open>
  \<open>value.encode()\<close>: UTF-8. A lone surrogate (and a number that is no code point) cannot
  be encoded: Python raises \<open>UnicodeEncodeError\<close>, here the result is \<open>None\<close>.
\<close>

definition utf8_char :: "nat \<Rightarrow> nat list option" where
  "utf8_char c =
     (if c < 128 then Some [c]
      else if c < 2048 then Some [192 + c div 64, 128 + c mod 64]
      else if 55296 \<le> c \<and> c \<le> 57343 then None
      else if c < 65536 then
        Some [224 + c div 4096, 128 + (c div 64) mod 64, 128 + c mod 64]
      else if c < 1114112 then
        Some [240 + c div 262144, 128 + (c div 4096) mod 64, 128 + (c div 64) mod 64,
              128 + c mod 64]
      else None)"

fun encode :: "pystr \<Rightarrow> nat list option" where
  "encode [] = Some []"
| "encode (c # cs) =
     (case utf8_char c of
        None \<Rightarrow> None
      | Some bs \<Rightarrow> (case encode cs of None \<Rightarrow> None | Some rest \<Rightarrow> Some (bs @ rest)))"

text \<open>
  \<open>bytes.decode('unicode_escape')\<close>, as CPython's decoder reads its input. A byte other
  than a backslash stands for the code point of the same number (Latin-1). After a
  backslash: a line feed is dropped with the backslash; the one-letter escapes give their
  control character; up to three octal digits, or exactly two (\<open>\x\<close>), four (\<open>\u\<close>) or
  eight (\<open>\U\<close>) hexadecimal digits, give the code point of that number;
  \<open>\N{name}\<close> is looked up in the Unicode character database, a table that is no part
  of the repository and is the parameter \<open>ucd\<close>; any other character is kept together
  with its backslash (the interpreter warns about it, which is no exception under the
  default warning filter). \<open>None\<close> stands for \<open>UnicodeDecodeError\<close>: a backslash at the
  end, too few hexadecimal digits, a number above U+10FFFF, a malformed or unknown name.
\<close>

definition hexdigit :: "nat \<Rightarrow> nat option" where
  "hexdigit c =
     (if 48 \<le> c \<and> c \<le> 57 then Some (c - 48)
      else if 97 \<le> c \<and> c \<le> 102 then Some (c - 87)
      else if 65 \<le> c \<and> c \<le> 70 then Some (c - 55)
      else None)"

fun hexescape :: "nat \<Rightarrow> nat \<Rightarrow> nat list \<Rightarrow> (pystr \<times> nat list) option" where
  "hexescape 0 ch s = (if ch > 1114111 then None else Some ([ch], s))"
| "hexescape (Suc n) ch [] = None"
| "hexescape (Suc n) ch (c # s) =
     (case hexdigit c of None \<Rightarrow> None | Some d \<Rightarrow> hexescape n (ch * 16 + d) s)"

definition isoctal :: "nat \<Rightarrow> bool" where
  "isoctal c \<longleftrightarrow> 48 \<le> c \<and> c \<le> 55"

definition octescape :: "nat \<Rightarrow> nat list \<Rightarrow> (pystr \<times> nat list) option" where
  "octescape ch s =
     (case s of
        [] \<Rightarrow> Some ([ch], s)
      | c1 # s1 \<Rightarrow>
          if isoctal c1 then
            (case s1 of
               [] \<Rightarrow> Some ([ch * 8 + (c1 - 48)], s1)
             | c2 # s2 \<Rightarrow>
                 if isoctal c2 then Some ([(ch * 8 + (c1 - 48)) * 8 + (c2 - 48)], s2)
                 else Some ([ch * 8 + (c1 - 48)], s1))
          else Some ([ch], s))"

definition nameescape :: "(pystr \<Rightarrow> nat option) \<Rightarrow> nat list \<Rightarrow> (pystr \<times> nat list) option" where
  "nameescape ucd s =
     (case s of
        [] \<Rightarrow> None
      | c # s1 \<Rightarrow>
          if c = 123 then
            (let name = takeWhile (\<lambda>x. x \<noteq> 125) s1; rest = dropWhile (\<lambda>x. x \<noteq> 125) s1
             in if rest = [] \<or> name = [] then None
                else (case ucd name of None \<Rightarrow> None | Some ch \<Rightarrow> Some ([ch], tl rest)))
          else None)"

text \<open>
  One escape: \<open>c\<close> is the byte after the backslash and \<open>s\<close> the input after it; the
  result is the decoded text and the input that is left.
\<close>

definition escape :: "(pystr \<Rightarrow> nat option) \<Rightarrow> nat \<Rightarrow> nat list \<Rightarrow> (pystr \<times> nat list) option" where
  "escape ucd c s =
     (if c = 10 then Some ([], s)
      else if c = 92 then Some ([92], s)
      else if c = 39 then Some ([39], s)
      else if c = 34 then Some ([34], s)
      else if c = 98 then Some ([8], s)
      else if c = 102 then Some ([12], s)
      else if c = 116 then Some ([9], s)
      else if c = 110 then Some ([10], s)
      else if c = 114 then Some ([13], s)
      else if c = 118 then Some ([11], s)
      else if c = 97 then Some ([7], s)
      else if isoctal c then octescape (c - 48) s
      else if c = 120 then hexescape 2 0 s
      else if c = 117 then hexescape 4 0 s
      else if c = 85 then hexescape 8 0 s
      else if c = 78 then nameescape ucd s
      else Some ([92, c], s))"

lemma hexescape_length: "hexescape n ch s = Some (out, rest) \<Longrightarrow> length rest \<le> length s"
proof (induction n ch s rule: hexescape.induct)
  case (3 n ch c s)
  then show ?case by (auto split: option.splits)
qed (auto split: if_splits)

lemma octescape_length: "octescape ch s = Some (out, rest) \<Longrightarrow> length rest \<le> length s"
  by (auto simp: octescape_def split: list.splits if_splits)

lemma nameescape_length: "nameescape ucd s = Some (out, rest) \<Longrightarrow> length rest \<le> length s"
proof -
  have "length (tl (dropWhile P xs)) \<le> length xs" for P and xs :: "nat list"
    using length_dropWhile_le [of P xs] by simp
  then show "nameescape ucd s = Some (out, rest) \<Longrightarrow> length rest \<le> length s"
    by (auto simp: nameescape_def Let_def le_SucI split: list.splits if_splits option.splits)
qed

lemma escape_length: "escape ucd c s = Some (out, rest) \<Longrightarrow> length rest \<le> length s"
  unfolding escape_def
  by (auto split: if_splits dest: hexescape_length octescape_length nameescape_length)

function unicode_escape :: "(pystr \<Rightarrow> nat option) \<Rightarrow> nat list \<Rightarrow> pystr option" where
  "unicode_escape ucd [] = Some []"
| "unicode_escape ucd (c # s) =
     (if c \<noteq> 92 then map_option ((#) c) (unicode_escape ucd s)
      else (case s of
              [] \<Rightarrow> None
            | d # s' \<Rightarrow>
                (case escape ucd d s' of
                   None \<Rightarrow> None
                 | Some (out, rest) \<Rightarrow> map_option ((@) out) (unicode_escape ucd rest))))"
  by pat_completeness auto
termination
  by (relation "measure (\<lambda>(ucd, s). length s)") (auto dest: escape_length)

section \<open>The properties reader\<close>

text \<open>The exceptions that the script raises or lets through, with their payload.\<close>

datatype error =
    RuntimeError pystr
  | FileNotFoundError pystr
  | ValueError pystr
  | KeyError pystr
  | OSError pystr
  | CalledProcessError "pystr list" int pystr pystr

type_synonym props = "pystr \<Rightarrow> pystr option"

text \<open>
  Lines 77 to 89: the value of \<open>release.keystore\<close>. The two replacements are made first;
  when encoding or decoding raises, the \<open>except\<close> clause passes and \<open>value\<close> is what the
  replacements left.
\<close>

definition unescape :: "(pystr \<Rightarrow> nat option) \<Rightarrow> pystr \<Rightarrow> pystr" where
  "unescape ucd v =
     (let v1 = replace [92, 92] [92] v;
          v2 = replace [92, 58] [58] v1
      in case encode v2 of
           None \<Rightarrow> v2
         | Some bs \<Rightarrow> (case unicode_escape ucd bs of None \<Rightarrow> v2 | Some d \<Rightarrow> d))"

text \<open>Lines 69 to 91: the body of the loop over the lines of the file.\<close>

definition read_line :: "(pystr \<Rightarrow> nat option) \<Rightarrow> props \<Rightarrow> pystr \<Rightarrow> props" where
  "read_line ucd properties raw =
     (let line = strip raw
      in if line \<noteq> [] \<and> \<not> startswith line (str ''#'') \<and> 61 \<in> set line then
           (let (k, v) = split_first 61 line;
                key = strip k;
                val = strip v;
                val = (if key = str ''release.keystore'' then unescape ucd val else val)
            in properties(key \<mapsto> val))
         else properties)"

text \<open>
  What opening and reading the properties file gives: no such file, another failure
  (with the text of its exception), or the lines of the file.
\<close>

datatype file_outcome = NoSuchFile | ReadError pystr | Lines "pystr list"

definition required_keys :: "pystr list" where
  "required_keys =
     [str ''release.keystore'', str ''keystore.password'', str ''key.alias'', str ''key.password'']"

definition parse_lines :: "(pystr \<Rightarrow> nat option) \<Rightarrow> pystr list \<Rightarrow> props" where
  "parse_lines ucd ls = foldl (read_line ucd) Map.empty ls"

definition missing_keys :: "props \<Rightarrow> pystr list" where
  "missing_keys properties = filter (\<lambda>key. properties key = None) required_keys"

definition read_signing_properties ::
  "(pystr \<Rightarrow> nat option) \<Rightarrow> pystr \<Rightarrow> file_outcome \<Rightarrow> error + props" where
  "read_signing_properties ucd properties_file outcome =
     (case outcome of
        NoSuchFile \<Rightarrow> Inl (FileNotFoundError (str ''Properties file not found: '' @ properties_file))
      | ReadError e \<Rightarrow> Inl (RuntimeError (str ''Error reading properties file: '' @ e))
      | Lines ls \<Rightarrow>
          (let properties = parse_lines ucd ls
           in if missing_keys properties \<noteq> [] then
                Inl (ValueError (str ''Missing required properties: '' @
                                 join (str '', '') (missing_keys properties)))
              else Inr properties))"

text \<open>
  What one line contributes to the mapping, read off the loop body: whether it is an
  entry at all, its key, its trimmed value, and the value that is stored.
\<close>

definition is_entry :: "pystr \<Rightarrow> bool" where
  "is_entry raw \<longleftrightarrow>
     strip raw \<noteq> [] \<and> \<not> startswith (strip raw) (str ''#'') \<and> 61 \<in> set (strip raw)"

definition entry_key :: "pystr \<Rightarrow> pystr" where
  "entry_key raw = strip (fst (split_first 61 (strip raw)))"

definition trimmed_value :: "pystr \<Rightarrow> pystr" where
  "trimmed_value raw = strip (snd (split_first 61 (strip raw)))"

definition entry_value :: "(pystr \<Rightarrow> nat option) \<Rightarrow> pystr \<Rightarrow> pystr" where
  "entry_value ucd raw =
     (if entry_key raw = str ''release.keystore'' then unescape ucd (trimmed_value raw)
      else trimmed_value raw)"

definition entries :: "(pystr \<Rightarrow> nat option) \<Rightarrow> pystr list \<Rightarrow> (pystr \<times> pystr) list" where
  "entries ucd ls = map (\<lambda>l. (entry_key l, entry_value ucd l)) (filter is_entry ls)"

section \<open>Files, processes and the environment\<close>

text \<open>
  A path is the string the script holds; the file system maps the paths that exist to a
  file with its text or to a directory. Paths are taken as written, in normal form: no
  trailing or doubled slash, no \<open>.\<close> or \<open>..\<close> component, no symbolic link. The current
  directory \<open>.\<close> and the root \<open>/\<close> always exist as directories for \<open>mkdir\<close>.
  A file holds text that is already decoded; writing a file and creating the temporary
  directory do not fail.
\<close>

type_synonym path = pystr

datatype node = File pystr | Dir

type_synonym fsys = "path \<Rightarrow> node option"

definition joinpath :: "path \<Rightarrow> pystr \<Rightarrow> path" where
  "joinpath d name = d @ [47] @ name"

definition parent :: "path \<Rightarrow> path" where
  "parent p =
     (let d = rev (dropWhile (\<lambda>c. c \<noteq> 47) (rev p))
      in if d = [] then str ''.'' else if d = [47] then [47] else butlast d)"

definition basename :: "path \<Rightarrow> pystr" where
  "basename p = rev (takeWhile (\<lambda>c. c \<noteq> 47) (rev p))"

definition within :: "path \<Rightarrow> path \<Rightarrow> bool" where
  "within d p \<longleftrightarrow> p = d \<or> startswith p (d @ [47])"

definition rmtree :: "path \<Rightarrow> fsys \<Rightarrow> fsys" where
  "rmtree d f = (\<lambda>p. if within d p then None else f p)"

text \<open>
  Reading a text file line by line (universal newlines: \<open>\n\<close>, \<open>\r\<close> and \<open>\r\n\<close> end a
  line and are handed over as \<open>\n\<close>).
\<close>

fun readlines :: "pystr \<Rightarrow> pystr \<Rightarrow> pystr list" where
  "readlines cur [] = (if cur = [] then [] else [cur])"
| "readlines cur [c] = (if c = 10 \<or> c = 13 then [cur @ [10]] else [cur @ [c]])"
| "readlines cur (c # d # s) =
     (if c = 13 \<and> d = 10 then (cur @ [10]) # readlines [] s
      else if c = 10 \<or> c = 13 then (cur @ [10]) # readlines [] (d # s)
      else readlines (cur @ [c]) (d # s))"

text \<open>
  What a subprocess does is not in the repository: \<open>run_process\<close> gives, for a command
  line and the file system it finds, how the process ended and the file system it left.
  The other fields are the rest of the environment: the Unicode name table, the process
  environment, the name \<open>mkdtemp\<close> picks, and the texts that Python gives to a
  \<open>CalledProcessError\<close> and to an operating system error (by \<open>errno\<close> and path).
\<close>

datatype proc_result = Exited int pystr pystr | NoExecutable pystr

record env =
  unicode_names :: "pystr \<Rightarrow> nat option"
  environ :: "pystr \<Rightarrow> pystr option"
  run_process :: "pystr list \<Rightarrow> fsys \<Rightarrow> proc_result \<times> fsys"
  mkdtemp :: "fsys \<Rightarrow> path"
  cpe_text :: "pystr list \<Rightarrow> int \<Rightarrow> pystr"
  strerror :: "nat \<Rightarrow> path \<Rightarrow> pystr"

text \<open>
  The state of a run: the file system, every command line handed to \<open>subprocess.run\<close>
  (oldest first), the temporary directories created, and what was printed.
\<close>

record world =
  files :: fsys
  calls :: "pystr list list"
  tmpdirs :: "path list"
  stdout :: "pystr list"
  stderr :: "pystr list"

definition py_print :: "pystr \<Rightarrow> world \<Rightarrow> world" where
  "py_print s w = w\<lparr>stdout := stdout w @ [s]\<rparr>"

definition open_text :: "env \<Rightarrow> fsys \<Rightarrow> path \<Rightarrow> file_outcome" where
  "open_text e f p =
     (case f p of
        None \<Rightarrow> NoSuchFile
      | Some Dir \<Rightarrow> ReadError (strerror e 21 p)
      | Some (File t) \<Rightarrow> Lines (readlines [] t))"

text \<open>
  \<open>subprocess.run(cmd, capture_output=True, check=True)\<close>: \<open>FileNotFoundError\<close> when
  the executable is not found (nothing ran), \<open>CalledProcessError\<close> with the captured
  output when the exit status is not 0. These are the two exceptions that the script
  names; other ways in which starting a process can fail are outside the model.
\<close>

definition subprocess_run :: "env \<Rightarrow> pystr list \<Rightarrow> world \<Rightarrow> (error + pystr \<times> pystr) \<times> world" where
  "subprocess_run e cmd w =
     (case run_process e cmd (files w) of
        (NoExecutable m, f) \<Rightarrow> (Inl (FileNotFoundError m), w\<lparr>calls := calls w @ [cmd]\<rparr>)
      | (Exited rc out err, f) \<Rightarrow>
          (if rc \<noteq> 0 then Inl (CalledProcessError cmd rc out err) else Inr (out, err),
           w\<lparr>files := f, calls := calls w @ [cmd]\<rparr>))"

lemma parent_shorter:
  "q \<noteq> str ''.'' \<Longrightarrow> q \<noteq> [47] \<Longrightarrow> parent q = str ''.'' \<or> parent q = [47] \<or> length (parent q) < length q"
proof -
  let ?d = "rev (dropWhile (\<lambda>c. c \<noteq> 47) (rev q))"
  have "length ?d \<le> length q"
    using length_dropWhile_le [of "\<lambda>c. c \<noteq> 47" "rev q"] by simp
  then have "?d \<noteq> [] \<Longrightarrow> length (butlast ?d) < length q"
    by (cases ?d rule: rev_cases) auto
  then show ?thesis
    by (auto simp: parent_def Let_def)
qed

text \<open>
  \<open>Path.mkdir(parents=True, exist_ok=True)\<close>: an existing directory is accepted
  (\<open>exist_ok\<close>), a file at the path is \<open>FileExistsError\<close> (errno 17), a file where the
  parent directory should be is \<open>NotADirectoryError\<close> (errno 20), and a missing parent
  is created first, in the same way. Both errors are \<open>OSError\<close>s.
\<close>

definition is_file :: "fsys \<Rightarrow> path \<Rightarrow> bool" where
  "is_file f p = (case f p of Some (File t) \<Rightarrow> True | _ \<Rightarrow> False)"

function mkdir_parents :: "env \<Rightarrow> path \<Rightarrow> fsys \<Rightarrow> error + fsys" where
  "mkdir_parents e q f =
     (case f q of
        Some Dir \<Rightarrow> Inr f
      | Some (File t) \<Rightarrow> Inl (OSError (strerror e 17 q))
      | None \<Rightarrow>
          if q = str ''.'' \<or> q = [47] then Inr f
          else if is_file f (parent q) then Inl (OSError (strerror e 20 q))
          else (case mkdir_parents e (parent q) f of
                  Inl err \<Rightarrow> Inl err
                | Inr f1 \<Rightarrow> Inr (f1(q \<mapsto> Dir))))"
  by pat_completeness auto

termination
proof (relation "measure (\<lambda>(e, q, f). if q = str ''.'' \<or> q = [47] then 0 else Suc (length q))")
  show "wf (measure (\<lambda>(e :: env, q, f :: fsys). if q = str ''.'' \<or> q = [47] then 0 else Suc (length q)))"
    by simp
next
  fix e :: env and q :: path and f :: fsys
  assume "f q = None" and "\<not> (q = str ''.'' \<or> q = [47])" and "\<not> is_file f (parent q)"
  then have "parent q = str ''.'' \<or> parent q = [47] \<or> length (parent q) < length q"
    using parent_shorter [of q] by simp
  then show "((e, parent q, f), (e, q, f))
      \<in> measure (\<lambda>(e, q, f). if q = str ''.'' \<or> q = [47] then 0 else Suc (length q))"
    using \<open>\<not> (q = str ''.'' \<or> q = [47])\<close> by auto
qed

text \<open>
  \<open>shutil.copy2(src, dst)\<close>: into \<open>dst\<close> under the name of \<open>src\<close> when \<open>dst\<close> is a
  directory, else to \<open>dst\<close> itself.
\<close>

definition copy2 :: "env \<Rightarrow> path \<Rightarrow> path \<Rightarrow> fsys \<Rightarrow> error + fsys" where
  "copy2 e src dst f =
     (let target = (if f dst = Some Dir then joinpath dst (basename src) else dst)
      in case f src of
           None \<Rightarrow> Inl (FileNotFoundError (strerror e 2 src))
         | Some Dir \<Rightarrow> Inl (OSError (strerror e 21 src))
         | Some (File t) \<Rightarrow>
             if f target = Some Dir then Inl (OSError (strerror e 21 target))
             else Inr (f(target \<mapsto> File t)))"

section \<open>The wrapper\<close>

record wrapper =
  bundletool_path :: path
  java_cmd :: pystr

text \<open>Lines 44 to 61.\<close>

definition java_home_fallback :: "env \<Rightarrow> world \<Rightarrow> error + pystr" where
  "java_home_fallback e w =
     (let java_exe =
            (\<lambda>java_home. joinpath (joinpath java_home (str ''bin'')) (str ''java''));
          not_found = Inl (RuntimeError
            (str ''Java not found. Please install Java or set JAVA_HOME environment variable.''))
      in case environ e (str ''JAVA_HOME'') of
           None \<Rightarrow> not_found
         | Some java_home \<Rightarrow>
             if java_home \<noteq> [] \<and> files w (java_exe java_home) \<noteq> None
             then Inr (java_exe java_home)
             else not_found)"

definition find_java :: "env \<Rightarrow> world \<Rightarrow> (error + pystr) \<times> world" where
  "find_java e w =
     (case subprocess_run e [str ''java'', str ''-version''] w of
        (Inr r, w1) \<Rightarrow> (Inr (str ''java''), w1)
      | (Inl err, w1) \<Rightarrow>
          (case err of
             CalledProcessError c rc out er \<Rightarrow> (java_home_fallback e w1, w1)
           | FileNotFoundError m \<Rightarrow> (java_home_fallback e w1, w1)
           | _ \<Rightarrow> (Inl err, w1)))"

text \<open>Lines 40 to 42: the constructor.\<close>

definition init :: "env \<Rightarrow> path \<Rightarrow> world \<Rightarrow> (error + wrapper) \<times> world" where
  "init e bundletool w =
     (case find_java e w of
        (Inl err, w1) \<Rightarrow> (Inl err, w1)
      | (Inr java, w1) \<Rightarrow> (Inr \<lparr>bundletool_path = bundletool, java_cmd = java\<rparr>, w1))"

text \<open>Lines 105 to 122.\<close>

definition validate_inputs ::
  "env \<Rightarrow> wrapper \<Rightarrow> path \<Rightarrow> path \<Rightarrow> props \<Rightarrow> world \<Rightarrow> (error + unit) \<times> world" where
  "validate_inputs e self aab_file output_file signing_properties w =
     (if files w aab_file = None then
        (Inl (FileNotFoundError (str ''AAB file not found: '' @ aab_file)), w)
      else if files w (bundletool_path self) = None then
        (Inl (FileNotFoundError (str ''Bundletool JAR not found: '' @ bundletool_path self)), w)
      else
        (case signing_properties (str ''release.keystore'') of
           None \<Rightarrow> (Inl (KeyError (str ''release.keystore'')), w)
         | Some keystore_path \<Rightarrow>
             if files w keystore_path = None then
               (Inl (FileNotFoundError (str ''Keystore file not found: '' @ keystore_path)), w)
             else
               (case mkdir_parents e (parent output_file) (files w) of
                  Inl err \<Rightarrow> (Inl err, w)
                | Inr f \<Rightarrow> (Inr (), w\<lparr>files := f\<rparr>))))"

text \<open>Lines 189 to 202.\<close>

definition quoted :: "string \<Rightarrow> pystr" where
  "quoted s = [34] @ str s @ [34]"

definition device_spec_content :: pystr where
  "device_spec_content =
     str ''{'' @ [10] @
     str ''  '' @ quoted ''supportedAbis'' @ str '': ['' @ quoted ''arm64-v8a'' @ str ''],'' @ [10] @
     str ''  '' @ quoted ''supportedLocales'' @ str '': ['' @ quoted ''en'' @ str ''],'' @ [10] @
     str ''  '' @ quoted ''screenDensity'' @ str '': 480,'' @ [10] @
     str ''  '' @ quoted ''sdkVersion'' @ str '': 34'' @ [10] @
     str ''}''"

definition create_device_spec :: "path \<Rightarrow> world \<Rightarrow> pystr \<times> world" where
  "create_device_spec temp_dir w =
     (let device_spec_path = joinpath temp_dir (str ''device_spec.json'')
      in (device_spec_path,
          w\<lparr>files := (files w)(device_spec_path \<mapsto> File device_spec_content)\<rparr>))"

text \<open>Lines 140 to 150 and 163 to 169: the two command lines.\<close>

definition build_cmd :: "wrapper \<Rightarrow> path \<Rightarrow> path \<Rightarrow> props \<Rightarrow> error + pystr list" where
  "build_cmd self aab_file temp_apks signing_props =
     (case signing_props (str ''release.keystore'') of
        None \<Rightarrow> Inl (KeyError (str ''release.keystore''))
      | Some ks \<Rightarrow>
     (case signing_props (str ''keystore.password'') of
        None \<Rightarrow> Inl (KeyError (str ''keystore.password''))
      | Some ks_pass \<Rightarrow>
     (case signing_props (str ''key.alias'') of
        None \<Rightarrow> Inl (KeyError (str ''key.alias''))
      | Some alias \<Rightarrow>
     (case signing_props (str ''key.password'') of
        None \<Rightarrow> Inl (KeyError (str ''key.password''))
      | Some key_pass \<Rightarrow>
          Inr [java_cmd self, str ''-jar'', bundletool_path self,
               str ''build-apks'',
               str ''--bundle'', aab_file,
               str ''--output'', temp_apks,
               str ''--mode'', str ''universal'',
               str ''--ks'', ks,
               str ''--ks-pass'', str ''pass:'' @ ks_pass,
               str ''--ks-key-alias'', alias,
               str ''--key-pass'', str ''pass:'' @ key_pass]))))"

definition extract_cmd :: "wrapper \<Rightarrow> path \<Rightarrow> path \<Rightarrow> path \<Rightarrow> pystr list" where
  "extract_cmd self temp_apks temp_dir device_spec =
     [java_cmd self, str ''-jar'', bundletool_path self,
      str ''extract-apks'',
      str ''--apks'', temp_apks,
      str ''--output-dir'', temp_dir,
      str ''--device-spec'', device_spec]"

text \<open>
  Lines 152 to 159 and 171 to 178: one \<open>try\<close> around \<open>subprocess.run\<close>. A
  \<open>CalledProcessError\<close> is reported in three lines and raised again; any other exception
  passes through.
\<close>

definition run_step ::
  "env \<Rightarrow> pystr \<Rightarrow> pystr \<Rightarrow> pystr list \<Rightarrow> world \<Rightarrow> (error + unit) \<times> world" where
  "run_step e succeeded failed cmd w =
     (case subprocess_run e cmd w of
        (Inr r, w1) \<Rightarrow> (Inr (), py_print succeeded w1)
      | (Inl err, w1) \<Rightarrow>
          (case err of
             CalledProcessError c rc out er \<Rightarrow>
               (Inl err,
                py_print (str ''Command error: '' @ er)
                  (py_print (str ''Command output: '' @ out)
                    (py_print (failed @ cpe_text e c rc) w1)))
           | _ \<Rightarrow> (Inl err, w1)))"

text \<open>Lines 136 to 187: the body of the \<open>with\<close> block.\<close>

definition pipeline ::
  "env \<Rightarrow> wrapper \<Rightarrow> path \<Rightarrow> path \<Rightarrow> props \<Rightarrow> path \<Rightarrow> world \<Rightarrow> (error + unit) \<times> world" where
  "pipeline e self aab_file output_file signing_props temp_dir w =
     (let temp_apks = joinpath temp_dir (str ''temp.apks'');
          w1 = py_print (str ''Step 1: Generating universal APK set...'') w
      in case build_cmd self aab_file temp_apks signing_props of
           Inl err \<Rightarrow> (Inl err, w1)
         | Inr cmd1 \<Rightarrow>
         (case run_step e ([10003] @ str '' Universal APK set generated successfully'')
                 (str ''Error generating APK set: '') cmd1 w1 of
            (Inl err, w2) \<Rightarrow> (Inl err, w2)
          | (Inr u, w2) \<Rightarrow>
         (let w3 = py_print (str ''Step 2: Extracting universal APK...'') w2;
              (device_spec, w4) = create_device_spec temp_dir w3;
              cmd2 = extract_cmd self temp_apks temp_dir device_spec
          in case run_step e ([10003] @ str '' Universal APK extracted successfully'')
                    (str ''Error extracting APK: '') cmd2 w4 of
               (Inl err, w5) \<Rightarrow> (Inl err, w5)
             | (Inr u, w5) \<Rightarrow>
             (let universal_apk = joinpath temp_dir (str ''universal.apk'')
              in if files w5 universal_apk \<noteq> None then
                   (case copy2 e universal_apk output_file (files w5) of
                      Inl err \<Rightarrow> (Inl err, w5)
                    | Inr f \<Rightarrow>
                        (Inr (), py_print ([10003] @ str '' APK saved to: '' @ output_file)
                                   (w5\<lparr>files := f\<rparr>)))
                 else
                   (Inl (RuntimeError (str ''Universal APK not found after extraction'')),
                    w5)))))"

text \<open>
  \<open>with tempfile.TemporaryDirectory() as temp_dir\<close>: the directory is created, the body
  runs, and the directory goes with all it holds, however the body ends.
\<close>

definition with_tempdir ::
  "env \<Rightarrow> (path \<Rightarrow> world \<Rightarrow> (error + unit) \<times> world) \<Rightarrow> world \<Rightarrow> (error + unit) \<times> world" where
  "with_tempdir e body w =
     (let temp_dir = mkdtemp e (files w);
          w1 = w\<lparr>files := (files w)(temp_dir \<mapsto> Dir), tmpdirs := tmpdirs w @ [temp_dir]\<rparr>;
          (r, w2) = body temp_dir w1
      in (r, w2\<lparr>files := rmtree temp_dir (files w2)\<rparr>))"

text \<open>Lines 124 to 187.\<close>

definition banner :: "path \<Rightarrow> path \<Rightarrow> pystr" where
  "banner aab_file output_file =
     str ''Converting '' @ aab_file @ str '' to '' @ output_file @ str ''...''"

definition convert_aab_to_apk ::
  "env \<Rightarrow> wrapper \<Rightarrow> path \<Rightarrow> path \<Rightarrow> path \<Rightarrow> world \<Rightarrow> (error + unit) \<times> world" where
  "convert_aab_to_apk e self aab_file output_file signing_properties_file w =
     (let w1 = py_print (banner aab_file output_file) w
      in case read_signing_properties (unicode_names e) signing_properties_file
                (open_text e (files w1) signing_properties_file) of
           Inl err \<Rightarrow> (Inl err, w1)
         | Inr signing_props \<Rightarrow>
             (case validate_inputs e self aab_file output_file signing_props w1 of
                (Inl err, w2) \<Rightarrow> (Inl err, w2)
              | (Inr u, w2) \<Rightarrow>
                  with_tempdir e (pipeline e self aab_file output_file signing_props) w2))"

section \<open>The entry point\<close>

text \<open>
  \<open>main\<close> from the parsed arguments on (lines 225 to 236). \<open>exc_text\<close> is \<open>str(e)\<close>;
  the result is the exit status of the process. The argument parser runs before the
  \<open>try\<close> block and ends the process by itself on a malformed command line; that is
  \<open>argparse\<close>'s behaviour and not part of this model.
\<close>

record args =
  arg_aab :: path
  arg_output :: path
  arg_bundletool :: path
  arg_signing :: path

definition exc_text :: "env \<Rightarrow> error \<Rightarrow> pystr" where
  "exc_text e err =
     (case err of
        RuntimeError m \<Rightarrow> m
      | FileNotFoundError m \<Rightarrow> m
      | ValueError m \<Rightarrow> m
      | KeyError k \<Rightarrow> [39] @ k @ [39]
      | OSError m \<Rightarrow> m
      | CalledProcessError c rc out er \<Rightarrow> cpe_text e c rc)"

definition failure_indicator :: pystr where
  "failure_indicator = [10060] @ str '' Error: ''"

definition report_error :: "env \<Rightarrow> error \<Rightarrow> world \<Rightarrow> int \<times> world" where
  "report_error e err w = (1, w\<lparr>stderr := stderr w @ [failure_indicator @ exc_text e err]\<rparr>)"

definition main :: "env \<Rightarrow> args \<Rightarrow> world \<Rightarrow> int \<times> world" where
  "main e a w =
     (case init e (arg_bundletool a) w of
        (Inl err, w1) \<Rightarrow> report_error e err w1
      | (Inr self, w1) \<Rightarrow>
          (case convert_aab_to_apk e self (arg_aab a) (arg_output a) (arg_signing a) w1 of
             (Inl err, w2) \<Rightarrow> report_error e err w2
           | (Inr u, w2) \<Rightarrow>
               (0, py_print ([10] @ [127881] @ str '' Successfully converted '' @ arg_aab a @
                             str '' to '' @ arg_output a) w2)))"

section \<open>The preconditions\<close>


section \<open>An example environment\<close>

text \<open>A Unicode name table that knows no name.\<close>

definition no_names :: "pystr \<Rightarrow> nat option" where
  "no_names n = None"

text \<open>
  The lines of a properties file with the four required keys, a comment and a blank line,
  and four keystore values as they stand in a file: \<open>C\:\\keys\\my.jks\<close>,
  \<open>D\:\\users\\me.jks\<close>, \<open>C\:\\temp\\new.jks\<close> and a name with the letter U+00E9.
\<close>

definition signing_lines :: "pystr list" where
  "signing_lines =
     [str ''# signing'' @ [10],
      str ''release.keystore = my.jks'' @ [10],
      [10],
      str ''keystore.password=secret'' @ [10],
      str ''key.alias=me'' @ [10],
      str ''key.password=hidden'']"



definition temp_path :: pystr where
  "temp_path = str ''C'' @ [92] @ str '':'' @ [92, 92] @ str ''temp'' @ [92, 92] @ str ''new.jks''"

definition accent_path :: pystr where
  "accent_path = str ''cl'' @ [233] @ str ''.jks''"

text \<open>
  A world with a bundle, a bundletool archive, a keystore and properties files, and three
  stand-ins for the external programs: one that answers every command with success and
  writes what bundletool would write, one whose \<open>build-apks\<close> fails, and one in which
  \<open>java\<close> is not on the path.
\<close>

definition demo_tool :: "pystr list \<Rightarrow> fsys \<Rightarrow> proc_result \<times> fsys" where
  "demo_tool cmd f =
     (if str ''build-apks'' \<in> set cmd then
        (Exited 0 [] [], f(str ''/tmp/tmpq3/temp.apks'' \<mapsto> File (str ''apks'')))
      else if str ''extract-apks'' \<in> set cmd then
        (Exited 0 [] [], f(str ''/tmp/tmpq3/universal.apk'' \<mapsto> File (str ''apk'')))
      else (Exited 0 [] (str ''openjdk 17''), f))"

definition failing_tool :: "pystr list \<Rightarrow> fsys \<Rightarrow> proc_result \<times> fsys" where
  "failing_tool cmd f =
     (if str ''build-apks'' \<in> set cmd then (Exited 1 (str ''building'') (str ''bad keystore''), f)
      else demo_tool cmd f)"

definition no_java_tool :: "pystr list \<Rightarrow> fsys \<Rightarrow> proc_result \<times> fsys" where
  "no_java_tool cmd f =
     (if cmd = [str ''java'', str ''-version''] then (NoExecutable (str ''No such file: java''), f)
      else demo_tool cmd f)"

definition demo_env :: env where
  "demo_env =
     \<lparr>unicode_names = no_names, environ = (\<lambda>k. None), run_process = demo_tool,
      mkdtemp = (\<lambda>f. str ''/tmp/tmpq3''),
      cpe_text = (\<lambda>cmd rc. str ''Command returned non-zero exit status''),
      strerror = (\<lambda>errno p. str ''OS error: '' @ p)\<rparr>"

definition demo_properties :: pystr where
  "demo_properties =
     str ''# signing'' @ [10] @
     str ''release.keystore = my.jks'' @ [10] @ [10] @
     str ''keystore.password=secret'' @ [13, 10] @
     str ''key.alias=me'' @ [10] @
     str ''key.password=hidden''"

definition windows_properties :: pystr where
  "windows_properties =
     str ''release.keystore='' @ temp_path @ [10] @
     str ''keystore.password=secret'' @ [10] @
     str ''key.alias=me'' @ [10] @
     str ''key.password=hidden'' @ [10]"

definition demo_files :: fsys where
  "demo_files =
     [str ''app.aab'' \<mapsto> File (str ''bundle''),
      str ''bundletool.jar'' \<mapsto> File (str ''jar''),
      str ''my.jks'' \<mapsto> File (str ''keys''),
      str ''signing.properties'' \<mapsto> File demo_properties,
      str ''incomplete.properties'' \<mapsto> File (str ''key.alias=me''),
      str ''windows.properties'' \<mapsto> File windows_properties,
      str ''C:'' @ [92] @ str ''temp'' @ [92] @ str ''new.jks'' \<mapsto> File (str ''keys''),
      str ''dist'' \<mapsto> Dir,
      str ''/opt/jdk/bin/java'' \<mapsto> File (str ''elf'')]"

definition demo_world :: world where
  "demo_world = \<lparr>files = demo_files, calls = [], tmpdirs = [], stdout = [], stderr = []\<rparr>"

definition demo_self :: wrapper where
  "demo_self = \<lparr>bundletool_path = str ''bundletool.jar'', java_cmd = str ''java''\<rparr>"

definition demo_args :: args where
  "demo_args =
     \<lparr>arg_aab = str ''app.aab'', arg_output = str ''out/app.apk'',
      arg_bundletool = str ''bundletool.jar'', arg_signing = str ''signing.properties''\<rparr>"

section \<open>The reader's properties\<close>

lemma read_line_is_entry:
  "is_entry l \<Longrightarrow> read_line ucd p l = p(entry_key l \<mapsto> entry_value ucd l)"
  by (simp add: read_line_def is_entry_def entry_key_def entry_value_def trimmed_value_def
      Let_def split_beta)

lemma read_line_no_entry: "\<not> is_entry l \<Longrightarrow> read_line ucd p l = p"
  unfolding read_line_def is_entry_def Let_def by (simp only: if_False)

lemma foldl_read_line:
  "foldl (read_line ucd) p ls = p ++ map_of (rev (entries ucd ls))"
proof (induction ls arbitrary: p)
  case Nil
  show ?case by (simp add: entries_def)
next
  case (Cons l ls)
  show ?case
  proof (cases "is_entry l")
    case True
    let ?k = "entry_key l" and ?v = "entry_value ucd l"
    have e: "entries ucd (l # ls) = (?k, ?v) # entries ucd ls"
      using True by (simp add: entries_def)
    have "foldl (read_line ucd) p (l # ls) = foldl (read_line ucd) (p(?k \<mapsto> ?v)) ls"
      using True by (simp add: read_line_is_entry)
    also have "\<dots> = p(?k \<mapsto> ?v) ++ map_of (rev (entries ucd ls))"
      by (rule Cons.IH)
    also have "\<dots> = p ++ map_of (rev (entries ucd (l # ls)))"
      unfolding e by (rule ext) (simp add: map_add_def split: option.splits)
    finally show ?thesis .
  next
    case False
    then have "entries ucd (l # ls) = entries ucd ls"
      by (simp add: entries_def)
    with False Cons.IH [of p] show ?thesis
      by (simp add: read_line_no_entry)
  qed
qed

lemma parse_lines_entries: "parse_lines ucd ls = map_of (rev (entries ucd ls))"
  by (simp add: parse_lines_def foldl_read_line)

lemma dom_parse_lines: "dom (parse_lines ucd ls) = fst ` set (entries ucd ls)"
  by (simp add: parse_lines_entries dom_map_of_conv_image_fst)

lemma join_sublist: "k \<in> set ks \<Longrightarrow> sublist k (join sep ks)"
proof (induction sep ks rule: join.induct)
  case (3 sep p q ps)
  show ?case
  proof (cases "k = p")
    case True
    then show ?thesis by (simp add: sublist_append_rightI)
  next
    case False
    with 3 have "sublist k (join sep (q # ps))" by simp
    then obtain a b where "join sep (q # ps) = a @ k @ b" by (auto simp: sublist_def)
    then have "join sep (p # q # ps) = (p @ sep @ a) @ k @ b" by simp
    then show ?thesis unfolding sublist_def by blast
  qed
qed simp_all

lemma parse_lines_skip:
  "\<not> is_entry l \<Longrightarrow> parse_lines ucd (ls @ l # ls') = parse_lines ucd (ls @ ls')"
  by (simp add: parse_lines_def read_line_no_entry)

lemmas reader_eval =
  read_signing_properties_def parse_lines_def read_line_def strip_def isspace_def
  startswith_def split_first_def str_def missing_keys_def required_keys_def

text \<open>
  C3. When one or more of the four required keys are absent after parsing, the reader
  fails with \<open>ValueError\<close> (the spec's \<open>MissingProperty\<close>), and its message lists every
  absent key, not only the first: each absent key is in the list that is joined into the
  message, and so is a part of the message.
\<close>

theorem missing_property_names_every_key:
  assumes "\<exists>k \<in> set required_keys. parse_lines ucd ls k = None"
  shows "\<exists>msg. read_signing_properties ucd f (Lines ls) = Inl (ValueError msg) \<and>
           msg = str ''Missing required properties: '' @
                 join (str '', '') (missing_keys (parse_lines ucd ls)) \<and>
           (\<forall>k \<in> set required_keys. parse_lines ucd ls k = None \<longrightarrow>
              k \<in> set (missing_keys (parse_lines ucd ls)) \<and> sublist k msg)"
proof -
  let ?m = "missing_keys (parse_lines ucd ls)"
  let ?msg = "str ''Missing required properties: '' @ join (str '', '') ?m"
  from assms have ne: "?m \<noteq> []"
    by (auto simp: missing_keys_def filter_empty_conv)
  then have r: "read_signing_properties ucd f (Lines ls) = Inl (ValueError ?msg)"
    by (simp add: read_signing_properties_def Let_def)
  have "k \<in> set ?m \<and> sublist k ?msg"
    if "k \<in> set required_keys" and "parse_lines ucd ls k = None" for k
  proof -
    from that have k: "k \<in> set ?m" by (simp add: missing_keys_def)
    then have "sublist k (join (str '', '') ?m)" by (rule join_sublist)
    then obtain a b where "join (str '', '') ?m = a @ k @ b" by (auto simp: sublist_def)
    then have "?msg = (str ''Missing required properties: '' @ a) @ k @ b" by simp
    then have "sublist k ?msg" unfolding sublist_def by blast
    with k show ?thesis by simp
  qed
  with r show ?thesis by blast
qed

theorem missing_property_names_every_key_witness:
  "(\<exists>k \<in> set required_keys. parse_lines no_names [str ''key.alias=me''] k = None) \<and>
   read_signing_properties no_names (str ''signing.properties'') (Lines [str ''key.alias=me'']) =
     Inl (ValueError (str ''Missing required properties: release.keystore, keystore.password, key.password''))"
proof -
  have h: "\<exists>k \<in> set required_keys. parse_lines no_names [str ''key.alias=me''] k = None"
    by (simp add: reader_eval)
  from missing_property_names_every_key [OF h, of "str ''signing.properties''"] h
  show ?thesis
    by (simp add: reader_eval)
qed

lemmas codec_eval =
  unescape_def escape_def isoctal_def utf8_char_def hexdigit_def octescape_def

lemma strip_subset: "set (strip s) \<subseteq> set s"
proof -
  have "set (dropWhile isspace (rev (dropWhile isspace s))) \<subseteq> set (rev (dropWhile isspace s))"
    by (auto dest: set_dropWhileD)
  also have "\<dots> \<subseteq> set s" by (auto dest: set_dropWhileD)
  finally show ?thesis by (simp add: strip_def)
qed

lemma strip_Nil: "strip [] = []"
  by (simp add: strip_def)

text \<open>
  C4, as amended. For the lines of a properties file in which each of the four required
  keys has an entry, the reader returns the mapping of all entries of the file: its keys
  are exactly the keys of the entry lines (the four required keys and any further key the
  file holds). An entry line is one that is not blank, is no comment and holds \<open>=\<close>; it
  is split on the first \<open>=\<close>, key and value are trimmed, a later line overrides an
  earlier one with the same key, and the value of \<open>release.keystore\<close> is unescaped in
  addition. Blank lines and lines beginning with \<open>#\<close> contribute no entry.
\<close>

theorem reader_returns_all_entries:
  assumes "\<forall>k \<in> set required_keys. \<exists>l \<in> set ls. is_entry l \<and> entry_key l = k"
  shows "read_signing_properties ucd f (Lines ls) = Inr (parse_lines ucd ls) \<and>
         dom (parse_lines ucd ls) = entry_key ` {l \<in> set ls. is_entry l} \<and>
         set required_keys \<subseteq> dom (parse_lines ucd ls) \<and>
         parse_lines ucd ls = map_of (rev (entries ucd ls)) \<and>
         (\<forall>l \<in> set ls. strip l = [] \<or> startswith (strip l) (str ''#'') \<longrightarrow> \<not> is_entry l)"
proof -
  have d: "dom (parse_lines ucd ls) = entry_key ` {l \<in> set ls. is_entry l}"
    by (auto simp: dom_parse_lines entries_def image_iff)
  with assms have s: "set required_keys \<subseteq> dom (parse_lines ucd ls)" by auto
  then have "missing_keys (parse_lines ucd ls) = []"
    by (auto simp: missing_keys_def filter_empty_conv)
  then have "read_signing_properties ucd f (Lines ls) = Inr (parse_lines ucd ls)"
    by (simp add: read_signing_properties_def)
  with d s show ?thesis
    by (simp add: parse_lines_entries [symmetric] is_entry_def)
qed

lemma signing_lines_entries:
  "entries ucd signing_lines =
     [(str ''release.keystore'', str ''my.jks''), (str ''keystore.password'', str ''secret''),
      (str ''key.alias'', str ''me''), (str ''key.password'', str ''hidden'')]"
  by (simp add: entries_def signing_lines_def is_entry_def entry_key_def entry_value_def
      trimmed_value_def strip_def isspace_def startswith_def split_first_def str_def codec_eval)

theorem reader_returns_all_entries_witness:
  "(\<exists>m. read_signing_properties no_names (str ''signing.properties'') (Lines signing_lines) = Inr m \<and>
     dom m = set required_keys \<and> m (str ''release.keystore'') = Some (str ''my.jks'') \<and>
     m (str ''key.password'') = Some (str ''hidden''))"
proof -
  have h: "\<forall>k \<in> set required_keys. \<exists>l \<in> set signing_lines. is_entry l \<and> entry_key l = k"
    by (simp add: required_keys_def signing_lines_def is_entry_def entry_key_def
      strip_def isspace_def startswith_def split_first_def str_def)
  have "dom (parse_lines no_names signing_lines) = set required_keys"
    by (simp add: dom_parse_lines signing_lines_entries required_keys_def)
  moreover have "parse_lines no_names signing_lines (str ''release.keystore'') = Some (str ''my.jks'')"
    by (simp add: parse_lines_entries signing_lines_entries str_def)
  moreover have "parse_lines no_names signing_lines (str ''key.password'') = Some (str ''hidden'')"
    by (simp add: parse_lines_entries signing_lines_entries str_def)
  ultimately show ?thesis
    using reader_returns_all_entries [OF h, of no_names "str ''signing.properties''"] by simp
qed

text \<open>
  C4 as stated fails: a file with the four required keys and a fifth, \<open>storeType\<close>,
  is read into a mapping that holds the fifth key too, so its keys are not exactly the
  four required ones.
\<close>

theorem extra_key_counterexample:
  "(case read_signing_properties no_names (str ''signing.properties'')
           (Lines (signing_lines @ [str ''storeType=jks''])) of
      Inl err \<Rightarrow> False
    | Inr m \<Rightarrow> set required_keys \<subseteq> dom m \<and> m (str ''storeType'') = Some (str ''jks'') \<and>
               str ''storeType'' \<notin> set required_keys)"
  by (simp add: signing_lines_def reader_eval codec_eval dom_def)

text \<open>
  C9. A line that is not blank, is no comment and holds no \<open>=\<close> is skipped without an
  error: the loop body leaves the mapping as it is, and the result of the reader, mapping
  or error, is the one the file gives with a blank line in its place.
\<close>

theorem line_without_equals_is_skipped:
  assumes "strip l \<noteq> []" and "\<not> startswith (strip l) (str ''#'')" and "61 \<notin> set l"
  shows "read_line ucd p l = p \<and>
         parse_lines ucd (ls @ l # ls') = parse_lines ucd (ls @ ls') \<and>
         parse_lines ucd (ls @ l # ls') = parse_lines ucd (ls @ [] # ls') \<and>
         read_signing_properties ucd f (Lines (ls @ l # ls')) =
           read_signing_properties ucd f (Lines (ls @ [] # ls'))"
proof -
  from assms(3) strip_subset [of l] have "61 \<notin> set (strip l)" by blast
  then have n: "\<not> is_entry l" by (simp add: is_entry_def)
  have b: "\<not> is_entry []" by (simp add: is_entry_def strip_Nil)
  have 1: "parse_lines ucd (ls @ l # ls') = parse_lines ucd (ls @ ls')"
    using n by (rule parse_lines_skip)
  have 2: "parse_lines ucd (ls @ [] # ls') = parse_lines ucd (ls @ ls')"
    using b by (rule parse_lines_skip)
  from n have "read_line ucd p l = p" by (rule read_line_no_entry)
  with 1 2 show ?thesis by (simp add: read_signing_properties_def)
qed

theorem line_without_equals_is_skipped_witness:
  "strip (str ''  keystore.password secret '') \<noteq> [] \<and>
   \<not> startswith (strip (str ''  keystore.password secret '')) (str ''#'') \<and>
   61 \<notin> set (str ''  keystore.password secret '') \<and>
   read_line no_names Map.empty (str ''  keystore.password secret '') = Map.empty \<and>
   read_signing_properties no_names (str ''signing.properties'')
       (Lines ([str ''key.alias=me''] @ str ''  keystore.password secret '' # [])) =
     read_signing_properties no_names (str ''signing.properties'')
       (Lines ([str ''key.alias=me''] @ [] # []))"
proof -
  have h1: "strip (str ''  keystore.password secret '') \<noteq> []"
    by (simp add: strip_def isspace_def str_def)
  have h2: "\<not> startswith (strip (str ''  keystore.password secret '')) (str ''#'')"
    by (simp add: strip_def isspace_def str_def startswith_def)
  have h3: "61 \<notin> set (str ''  keystore.password secret '')"
    by (simp add: str_def)
  from line_without_equals_is_skipped [OF h1 h2 h3, of no_names Map.empty "[str ''key.alias=me'']" "[]"
      "str ''signing.properties''"] h1 h2 h3
  show ?thesis by simp
qed






section \<open>The steps of the conversion\<close>

lemma py_print_simps [simp]:
  "files (py_print s w) = files w"
  "calls (py_print s w) = calls w"
  "tmpdirs (py_print s w) = tmpdirs w"
  "stderr (py_print s w) = stderr w"
  "stdout (py_print s w) = stdout w @ [s]"
  by (simp_all add: py_print_def)



lemma run_step_nonzero:
  assumes "run_process e cmd (files w) = (Exited rc out er, f)" and "rc \<noteq> 0"
  shows "fst (run_step e ok failed cmd w) = Inl (CalledProcessError cmd rc out er)"
  using assms by (simp add: run_step_def subprocess_run_def)









declare mkdir_parents.simps [simp del]





lemmas pipeline_eval =
  main_def init_def find_java_def java_home_fallback_def subprocess_run_def
  convert_aab_to_apk_def with_tempdir_def pipeline_def run_step_def create_device_spec_def
  build_cmd_def extract_cmd_def copy2_def validate_inputs_def mkdir_parents.simps parent_def
  is_file_def basename_def joinpath_def within_def rmtree_def open_text_def banner_def py_print_def
  report_error_def exc_text_def Let_def

lemmas demo_eval =
  demo_env_def demo_tool_def demo_world_def demo_files_def demo_properties_def demo_self_def
  demo_args_def no_names_def failing_tool_def no_java_tool_def





section \<open>The properties of the conversion\<close>















text \<open>
  C10. There are keystore values for which the decoder succeeds and still changes the
  value beyond the two replacements, so that the fallback is not taken and the changed
  value is stored: in \<open>C\:\\temp\\new.jks\<close> the escapes \<open>\t\<close> and \<open>\n\<close> become a
  tabulator and a line feed, and a value with the letter U+00E9 and no backslash at all
  comes back with the two bytes of its UTF-8 encoding as two characters. The changed
  value is the keystore path of the run: with \<open>C:\temp\new.jks\<close> present on disk, the
  conversion looks for the changed name and fails with \<open>Keystore file not found\<close>.
\<close>

theorem decode_succeeds_and_alters_value:
  "(\<exists>v d. encode (replace [92, 58] [58] (replace [92, 92] [92] v)) \<noteq> None \<and>
      Option.bind (encode (replace [92, 58] [58] (replace [92, 92] [92] v))) (unicode_escape ucd) = Some d \<and>
      d \<noteq> replace [92, 58] [58] (replace [92, 92] [92] v) \<and> 9 \<in> set d \<and>
      read_line ucd Map.empty (str ''release.keystore='' @ v) (str ''release.keystore'') = Some d) \<and>
   (\<exists>v d. v = strip v \<and> replace [92, 58] [58] (replace [92, 92] [92] v) = v \<and> 233 \<in> set v \<and>
      Option.bind (encode v) (unicode_escape ucd) = Some d \<and>
      d \<noteq> v \<and> 233 \<notin> set d \<and>
      read_line ucd Map.empty (str ''release.keystore='' @ v) (str ''release.keystore'') = Some d) \<and>
   files demo_world (str ''C:'' @ [92] @ str ''temp'' @ [92] @ str ''new.jks'') \<noteq> None \<and>
   fst (convert_aab_to_apk demo_env demo_self (str ''app.aab'') (str ''app.apk'')
          (str ''windows.properties'') demo_world) =
     Inl (FileNotFoundError
            (str ''Keystore file not found: C:'' @ [9] @ str ''emp'' @ [10] @ str ''ew.jks''))"
proof (intro conjI)
  show "\<exists>v d. encode (replace [92, 58] [58] (replace [92, 92] [92] v)) \<noteq> None \<and>
      Option.bind (encode (replace [92, 58] [58] (replace [92, 92] [92] v))) (unicode_escape ucd) = Some d \<and>
      d \<noteq> replace [92, 58] [58] (replace [92, 92] [92] v) \<and> 9 \<in> set d \<and>
      read_line ucd Map.empty (str ''release.keystore='' @ v) (str ''release.keystore'') = Some d"
    by (rule exI [of _ temp_path], rule exI [of _ "str ''C:'' @ [9] @ str ''emp'' @ [10] @ str ''ew.jks''"])
      (simp add: temp_path_def read_line_def strip_def isspace_def startswith_def split_first_def
        str_def codec_eval)
  show "\<exists>v d. v = strip v \<and> replace [92, 58] [58] (replace [92, 92] [92] v) = v \<and> 233 \<in> set v \<and>
      Option.bind (encode v) (unicode_escape ucd) = Some d \<and>
      d \<noteq> v \<and> 233 \<notin> set d \<and>
      read_line ucd Map.empty (str ''release.keystore='' @ v) (str ''release.keystore'') = Some d"
    by (rule exI [of _ accent_path], rule exI [of _ "str ''cl'' @ [195, 169] @ str ''.jks''"])
      (simp add: accent_path_def read_line_def strip_def isspace_def startswith_def split_first_def
        str_def codec_eval)
  show "files demo_world (str ''C:'' @ [92] @ str ''temp'' @ [92] @ str ''new.jks'') \<noteq> None"
    by (simp add: demo_eval str_def)
  show "fst (convert_aab_to_apk demo_env demo_self (str ''app.aab'') (str ''app.apk'')
          (str ''windows.properties'') demo_world) =
     Inl (FileNotFoundError
            (str ''Keystore file not found: C:'' @ [9] @ str ''emp'' @ [10] @ str ''ew.jks''))"
    by (simp add: pipeline_eval demo_eval reader_eval codec_eval windows_properties_def
        temp_path_def)
qed

end
